theory Spec2Isabelle
  imports Complex_Main "HOL-Library.Sublist"
begin

section \<open>Data model (types.ts)\<close>

text \<open>
  \<^verbatim>\<open>interface Credentials { url: string; token: string }\<close>
\<close>

record Credentials =
  url :: string
  token :: string

text \<open>
  A JavaScript object as the program sees it: its own enumerable properties, listed in the
  order \<^verbatim>\<open>Object.keys\<close>, \<^verbatim>\<open>Object.entries\<close> and \<^verbatim>\<open>JSON.stringify\<close> enumerate them.
  \<^verbatim>\<open>Record<string, Credentials>\<close> is such an object whose values are \<open>Credentials\<close>.
\<close>

type_synonym 'a object = "(string \<times> 'a) list"

text \<open>
  \<^verbatim>\<open>interface Config { active: string | null; credentials: Record<string, Credentials> }\<close>
\<close>

record Config =
  active :: "string option"
  credentials :: "Credentials object"


section \<open>Objects of the JavaScript runtime\<close>

text \<open>
  The objects of the store are made by an object literal (\<^verbatim>\<open>getDefaultConfig\<close>) or by
  \<^verbatim>\<open>JSON.parse\<close>, so their prototype is \<^verbatim>\<open>Object.prototype\<close>. These are the property
  names \<^verbatim>\<open>Object.prototype\<close> defines in Node.js: eleven methods and the accessor
  \<^verbatim>\<open>__proto__\<close>.
\<close>

definition Object_prototype :: "string list" where
  "Object_prototype =
     [''constructor'', ''__defineGetter__'', ''__defineSetter__'', ''hasOwnProperty'',
      ''__lookupGetter__'', ''__lookupSetter__'', ''isPrototypeOf'', ''propertyIsEnumerable'',
      ''toString'', ''valueOf'', ''__proto__'', ''toLocaleString'']"

text \<open>
  What \<^verbatim>\<open>obj[k]\<close> evaluates to: the own property when there is one, otherwise the property
  inherited from \<^verbatim>\<open>Object.prototype\<close> (a function, or \<^verbatim>\<open>Object.prototype\<close> itself for
  \<^verbatim>\<open>__proto__\<close>), otherwise \<^verbatim>\<open>undefined\<close>.
\<close>

datatype 'a property = Undefined | Own 'a | Inherited string

definition get :: "'a object \<Rightarrow> string \<Rightarrow> 'a property" where
  "get obj k =
     (case map_of obj k of
        Some v \<Rightarrow> Own v
      | None \<Rightarrow> if k \<in> set Object_prototype then Inherited k else Undefined)"

text \<open>
  Truthiness of \<^verbatim>\<open>obj[k]\<close> where the own values are objects (\<open>Credentials\<close>): every object
  and every function is truthy, \<^verbatim>\<open>undefined\<close> is falsy.
\<close>

fun truthy :: "'a property \<Rightarrow> bool" where
  "truthy Undefined = False"
| "truthy (Own v) = True"
| "truthy (Inherited k) = True"

text \<open>Truthiness of a \<^verbatim>\<open>string | null\<close>: \<^verbatim>\<open>null\<close> and the empty string are falsy.\<close>

fun truthy_string :: "string option \<Rightarrow> bool" where
  "truthy_string None = False"
| "truthy_string (Some s) = (s \<noteq> [])"

text \<open>
  Property keys that are array indices (canonical decimal numerals below \<open>2^32 - 1\<close>) are
  enumerated first, in ascending numeric order; all other keys follow in the order of
  their creation.
\<close>

definition is_digit :: "char \<Rightarrow> bool" where
  "is_digit c = (48 \<le> (of_char c :: nat) \<and> (of_char c :: nat) \<le> 57)"

definition decimal :: "string \<Rightarrow> nat" where
  "decimal s = foldl (\<lambda>n c. 10 * n + ((of_char c :: nat) - 48)) 0 s"

definition array_index :: "string \<Rightarrow> nat option" where
  "array_index k =
     (if k \<noteq> [] \<and> list_all is_digit k \<and> (k = ''0'' \<or> hd k \<noteq> CHR ''0'')
         \<and> decimal k < 4294967295
      then Some (decimal k) else None)"

fun insert_index :: "nat \<Rightarrow> string \<Rightarrow> 'a \<Rightarrow> 'a object \<Rightarrow> 'a object" where
  "insert_index n k v [] = [(k, v)]"
| "insert_index n k v (p # ps) =
     (case array_index (fst p) of
        Some m \<Rightarrow> if m < n then p # insert_index n k v ps else (k, v) # p # ps
      | None \<Rightarrow> (k, v) # p # ps)"

text \<open>
  The assignment \<^verbatim>\<open>obj[k] = v\<close> with \<open>v\<close> an object. An own property is overwritten in
  place. Without an own property \<^verbatim>\<open>__proto__\<close>, the assignment reaches the setter inherited
  from \<^verbatim>\<open>Object.prototype\<close>, which replaces the prototype of \<open>obj\<close> by \<open>v\<close> and creates no
  property; no function of the store reads a property of \<open>obj\<close> after such an assignment,
  and \<^verbatim>\<open>JSON.stringify\<close> writes own properties only, so the own properties are all that
  is kept. Any other key becomes a new own property.
\<close>

definition assign :: "'a object \<Rightarrow> string \<Rightarrow> 'a \<Rightarrow> 'a object" where
  "assign obj k v =
     (if k \<in> set (map fst obj) then map (\<lambda>p. if fst p = k then (k, v) else p) obj
      else if k = ''__proto__'' then obj
      else case array_index k of
             Some n \<Rightarrow> insert_index n k v obj
           | None \<Rightarrow> obj @ [(k, v)])"

text \<open>\<^verbatim>\<open>delete obj[k]\<close> removes an own property and does nothing else.\<close>

definition delete :: "'a object \<Rightarrow> string \<Rightarrow> 'a object" where
  "delete obj k = filter (\<lambda>p. fst p \<noteq> k) obj"

definition Object_keys :: "'a object \<Rightarrow> string list" where
  "Object_keys obj = map fst obj"

text \<open>\<^verbatim>\<open>k in obj\<close>: an own or an inherited property.\<close>

definition has_property :: "string \<Rightarrow> 'a object \<Rightarrow> bool" where
  "has_property k obj = (k \<in> set (map fst obj) \<or> k \<in> set Object_prototype)"


section \<open>The credential store (config.ts)\<close>

text \<open>
  Every operation of the store starts with \<^verbatim>\<open>const config = readConfig()\<close> and the
  mutating ones end with \<^verbatim>\<open>writeConfig(config)\<close>. The operations are modelled on the
  document read, a value of type \<open>Config\<close>; each returns its result together with the
  document it hands to \<^verbatim>\<open>writeConfig\<close>, or \<open>None\<close> when it returns without writing.
  \<^verbatim>\<open>writeConfig\<close> replaces the content of the file by \<^verbatim>\<open>JSON.stringify(config)\<close>, which
  \<^verbatim>\<open>JSON.parse\<close> reads back as the same document; a failure of the file system in it
  raises to the caller and is outside the operations as modelled here.
\<close>

definition getDefaultConfig :: Config where
  "getDefaultConfig = \<lparr>active = None, credentials = []\<rparr>"

definition getAllCredentials :: "Config \<Rightarrow> Credentials object" where
  "getAllCredentials config = credentials config"

text \<open>\<^verbatim>\<open>config.credentials[name] || null\<close>\<close>

definition getCredentials :: "string \<Rightarrow> Config \<Rightarrow> Credentials property option" where
  "getCredentials name config =
     (if truthy (get (credentials config) name) then Some (get (credentials config) name)
      else None)"

definition addCredentials :: "string \<Rightarrow> Credentials \<Rightarrow> Config \<Rightarrow> unit \<times> Config option" where
  "addCredentials name creds config0 =
     (let config = config0\<lparr>credentials := assign (credentials config0) name creds\<rparr>;
          config = (if length (Object_keys (credentials config)) = 1
                    then config\<lparr>active := Some name\<rparr> else config)
      in ((), Some config))"

definition removeCredentials :: "string \<Rightarrow> Config \<Rightarrow> bool \<times> Config option" where
  "removeCredentials name config0 =
     (if \<not> truthy (get (credentials config0) name) then (False, None)
      else
        let config = config0\<lparr>credentials := delete (credentials config0) name\<rparr>;
            config =
              (if active config = Some name
               then let remaining = Object_keys (credentials config)
                    in config\<lparr>active :=
                         (if length remaining > 0 then Some (remaining ! 0) else None)\<rparr>
               else config)
        in (True, Some config))"

definition setActive :: "string \<Rightarrow> Config \<Rightarrow> bool \<times> Config option" where
  "setActive name config =
     (if \<not> truthy (get (credentials config) name) then (False, None)
      else (True, Some (config\<lparr>active := Some name\<rparr>)))"

definition getActiveName :: "Config \<Rightarrow> string option" where
  "getActiveName config = active config"

text \<open>
  \<^verbatim>\<open>if (!config.active || !config.credentials[config.active]) return null;\<close>
  The second operand is evaluated only when \<^verbatim>\<open>config.active\<close> is truthy, hence a string.
\<close>

definition getActiveCredentials :: "Config \<Rightarrow> (string \<times> Credentials property) option" where
  "getActiveCredentials config =
     (if \<not> truthy_string (active config) then None
      else if \<not> truthy (get (credentials config) (the (active config))) then None
      else Some (the (active config), get (credentials config) (the (active config))))"

definition hasCredentials :: "string \<Rightarrow> Config \<Rightarrow> bool" where
  "hasCredentials name config = has_property name (credentials config)"

text \<open>
  The document the file holds after a call: the document written, or the one read when
  the call wrote nothing.
\<close>

definition stored :: "Config \<Rightarrow> 'r \<times> Config option \<Rightarrow> Config" where
  "stored config r = (case snd r of None \<Rightarrow> config | Some c \<Rightarrow> c)"

text \<open>A call of one of the three mutating operations, and a run of such calls.\<close>

datatype call =
    Add string Credentials
  | Remove string
  | SetActive string

fun perform :: "call \<Rightarrow> Config \<Rightarrow> Config" where
  "perform (Add name creds) config = stored config (addCredentials name creds config)"
| "perform (Remove name) config = stored config (removeCredentials name config)"
| "perform (SetActive name) config = stored config (setActive name config)"

text \<open>The documents observable after each call of a run, in order.\<close>

fun observed :: "Config \<Rightarrow> call list \<Rightarrow> Config list" where
  "observed config [] = []"
| "observed config (c # cs) = perform c config # observed (perform c config) cs"

text \<open>The invariant of the document: \<open>active\<close> is null or a key of \<open>credentials\<close>.\<close>

definition active_valid :: "Config \<Rightarrow> bool" where
  "active_valid config =
     (case active config of None \<Rightarrow> True | Some a \<Rightarrow> a \<in> set (Object_keys (credentials config)))"

text \<open>
  Calls whose name does not meet \<^verbatim>\<open>Object.prototype\<close>: any name but \<^verbatim>\<open>__proto__\<close> for
  \<open>Add\<close>, any name \<^verbatim>\<open>Object.prototype\<close> does not define for \<open>SetActive\<close>.
\<close>

fun plain_call :: "call \<Rightarrow> bool" where
  "plain_call (Add name creds) = (name \<noteq> ''__proto__'')"
| "plain_call (Remove name) = True"
| "plain_call (SetActive name) = (name \<notin> set Object_prototype)"


section \<open>Reading the configuration file (config.ts)\<close>

text \<open>
  The values \<^verbatim>\<open>JSON.parse\<close> and \<^verbatim>\<open>response.json()\<close> produce, and \<^verbatim>\<open>undefined\<close>, which
  reading a missing property yields.
\<close>

datatype jsval =
    JUndefined
  | JNull
  | JBool bool
  | JNum rat
  | JStr string
  | JArr "jsval list"
  | JObj "(string \<times> jsval) list"

text \<open>
  \<^verbatim>\<open>v[k]\<close> for a value \<open>v\<close> other than \<^verbatim>\<open>undefined\<close> and \<^verbatim>\<open>null\<close>, at the keys the program
  reads from parsed values: \<^verbatim>\<open>data\<close>, \<^verbatim>\<open>id\<close>, \<^verbatim>\<open>email\<close>, \<^verbatim>\<open>first_name\<close>, \<^verbatim>\<open>last_name\<close>,
  \<^verbatim>\<open>url\<close>, \<^verbatim>\<open>token\<close>, \<^verbatim>\<open>active\<close>, \<^verbatim>\<open>credentials\<close>. No built-in prototype defines one of
  these, so the result is the own property of an object and \<^verbatim>\<open>undefined\<close> otherwise.
\<close>

definition lookup :: "jsval \<Rightarrow> string \<Rightarrow> jsval" where
  "lookup v k =
     (case v of
        JObj ps \<Rightarrow> (case map_of ps k of Some w \<Rightarrow> w | None \<Rightarrow> JUndefined)
      | _ \<Rightarrow> JUndefined)"

text \<open>The JavaScript value of a document of type \<open>Config\<close>.\<close>

definition Credentials_value :: "Credentials \<Rightarrow> jsval" where
  "Credentials_value c = JObj [(''url'', JStr (url c)), (''token'', JStr (token c))]"

definition Config_value :: "Config \<Rightarrow> jsval" where
  "Config_value config =
     JObj [(''active'', (case active config of None \<Rightarrow> JNull | Some a \<Rightarrow> JStr a)),
           (''credentials'',
            JObj (map (\<lambda>p. (fst p, Credentials_value (snd p))) (credentials config)))]"

text \<open>
  The part of the file system \<^verbatim>\<open>readConfig\<close> touches. The configuration directory is
  missing (and \<^verbatim>\<open>mkdirSync\<close> can create it or not) or present; in a present directory the
  file is absent, or \<^verbatim>\<open>readFileSync\<close> fails on it, or \<^verbatim>\<open>JSON.parse\<close> rejects its content,
  or \<^verbatim>\<open>JSON.parse\<close> turns its content into a value.
\<close>

datatype config_file = Absent | Unreadable | Malformed | Parsed jsval

datatype filesystem = DirMissing bool | DirPresent config_file

datatype io_error = MkdirError

definition ensureConfigDir :: "filesystem \<Rightarrow> io_error + filesystem" where
  "ensureConfigDir fs =
     (case fs of
        DirPresent f \<Rightarrow> Inr (DirPresent f)
      | DirMissing creatable \<Rightarrow>
          if creatable then Inr (DirPresent Absent) else Inl MkdirError)"

text \<open>
  \<^verbatim>\<open>ensureConfigDir()\<close> runs before the \<^verbatim>\<open>try\<close>; the \<^verbatim>\<open>catch\<close> covers \<^verbatim>\<open>readFileSync\<close> and
  \<^verbatim>\<open>JSON.parse\<close> only. The value parsed is returned as it is (\<^verbatim>\<open>as Config\<close> is a type
  assertion, erased at run time).
\<close>

definition readConfig :: "filesystem \<Rightarrow> io_error + jsval \<times> filesystem" where
  "readConfig fs =
     (case ensureConfigDir fs of
        Inl e \<Rightarrow> Inl e
      | Inr fs' \<Rightarrow>
          (case fs' of
             DirPresent (Parsed v) \<Rightarrow> Inr (v, fs')
           | _ \<Rightarrow> Inr (Config_value getDefaultConfig, fs')))"

text \<open>
  The expected structure of the document, as the specification gives it:
  \<^verbatim>\<open>{ active: string | null, credentials: { <name>: { url: string, token: string } } }\<close>.
  The code has no such check; the predicate states what the specification calls
  "parses as the expected structure".
\<close>

definition is_string :: "jsval \<Rightarrow> bool" where
  "is_string v = (case v of JStr s \<Rightarrow> True | _ \<Rightarrow> False)"

definition expected_Credentials :: "jsval \<Rightarrow> bool" where
  "expected_Credentials v =
     (case v of
        JObj ps \<Rightarrow> is_string (lookup (JObj ps) ''url'') \<and> is_string (lookup (JObj ps) ''token'')
      | _ \<Rightarrow> False)"

definition expected_structure :: "jsval \<Rightarrow> bool" where
  "expected_structure v =
     (case v of
        JObj ps \<Rightarrow>
          (lookup (JObj ps) ''active'' = JNull \<or> is_string (lookup (JObj ps) ''active''))
          \<and> (case lookup (JObj ps) ''credentials'' of
                JObj cs \<Rightarrow> list_all (\<lambda>p. expected_Credentials (snd p)) cs
              | _ \<Rightarrow> False)
      | _ \<Rightarrow> False)"


section \<open>The validator (validator.ts)\<close>

text \<open>
  What a \<^verbatim>\<open>catch\<close> clause receives: an instance of \<^verbatim>\<open>Error\<close> with its message, or any
  other thrown value.
\<close>

datatype thrown = Error string | NotAnError


text \<open>
  The request \<^verbatim>\<open>fetch\<close> is called with, and the response it resolves to: the status and
  what \<^verbatim>\<open>response.json()\<close> settles to (a rejection or the parsed body). \<^verbatim>\<open>response.ok\<close> is
  true for the statuses 200 to 299.
\<close>

record Request =
  endpoint :: string
  http_method :: string
  headers :: "(string \<times> string) list"

record Response =
  status :: nat
  json :: "thrown + jsval"

definition ok :: "Response \<Rightarrow> bool" where
  "ok response = (200 \<le> status response \<and> status response \<le> 299)"

text \<open>
  \<^verbatim>\<open>interface ValidationResult { name; success; message; user?: { id; email; first_name?;
  last_name? } }\<close>. The fields of \<open>user\<close> hold whatever the body holds there.
\<close>

record User =
  id' :: jsval
  email :: jsval
  first_name :: jsval
  last_name :: jsval

record ValidationResult =
  name :: string
  success :: bool
  message :: string
  user :: "User option"

text \<open>\<^verbatim>\<open>s.includes(search)\<close>\<close>

fun String_includes :: "string \<Rightarrow> string \<Rightarrow> bool" where
  "String_includes [] search = (search = [])"
| "String_includes (c # s) search = (prefix search (c # s) \<or> String_includes s search)"

text \<open>The decimal numeral a template literal renders a non-negative integer as.\<close>

fun decimal_string :: "nat \<Rightarrow> string" where
  "decimal_string n =
     (if n < 10 then [''0123456789'' ! n]
      else decimal_string (n div 10) @ [''0123456789'' ! (n mod 10)])"

declare decimal_string.simps [simp del]

text \<open>\<^verbatim>\<open>url.replace(/\/+$/, '')\<close>\<close>

definition strip_trailing_slashes :: "string \<Rightarrow> string" where
  "strip_trailing_slashes s = rev (dropWhile (\<lambda>c. c = CHR ''/'') (rev s))"

text \<open>
  Reading a property of \<^verbatim>\<open>undefined\<close> or \<^verbatim>\<open>null\<close> throws a \<^verbatim>\<open>TypeError\<close>; this is the
  message Node.js gives it.
\<close>

definition cannot_read :: "string \<Rightarrow> string \<Rightarrow> string" where
  "cannot_read what k =
     ''Cannot read properties of '' @ what @ '' (reading '' @ [CHR 0x27] @ k @ [CHR 0x27] @ '')''"

definition get_property :: "jsval \<Rightarrow> string \<Rightarrow> thrown + jsval" where
  "get_property v k =
     (if v = JUndefined then Inl (Error (cannot_read ''undefined'' k))
      else if v = JNull then Inl (Error (cannot_read ''null'' k))
      else Inr (lookup v k))"

definition status_message :: "nat \<Rightarrow> string" where
  "status_message st =
     (if st = 401 then ''Unauthorized - Invalid or expired token''
      else if st = 403 then ''Forbidden - Token lacks required permissions''
      else if st = 404 then ''Not found - Check if the URL is correct''
      else ''HTTP '' @ decimal_string st)"

text \<open>
  The object literal \<^verbatim>\<open>{ id: user.id, email: user.email, first_name: user.first_name,
  last_name: user.last_name }\<close>, its properties read in this order.
\<close>

definition read_user :: "jsval \<Rightarrow> thrown + User" where
  "read_user u =
     (case get_property u ''id'' of Inl e \<Rightarrow> Inl e | Inr i \<Rightarrow>
      case get_property u ''email'' of Inl e \<Rightarrow> Inl e | Inr m \<Rightarrow>
      case get_property u ''first_name'' of Inl e \<Rightarrow> Inl e | Inr f \<Rightarrow>
      case get_property u ''last_name'' of Inl e \<Rightarrow> Inl e | Inr l \<Rightarrow>
        Inr \<lparr>id' = i, email = m, first_name = f, last_name = l\<rparr>)"

text \<open>The \<^verbatim>\<open>try\<close> block once \<^verbatim>\<open>fetch\<close> has resolved (lines 25 to 57).\<close>

definition on_response :: "string \<Rightarrow> Response \<Rightarrow> thrown + ValidationResult" where
  "on_response nm response =
     (if \<not> ok response
      then Inr \<lparr>name = nm, success = False, message = status_message (status response),
                user = None\<rparr>
      else
        case json response of Inl e \<Rightarrow> Inl e | Inr data \<Rightarrow>
        case get_property data ''data'' of Inl e \<Rightarrow> Inl e | Inr u \<Rightarrow>
        case read_user u of Inl e \<Rightarrow> Inl e | Inr usr \<Rightarrow>
          Inr \<lparr>name = nm, success = True, message = ''Valid'', user = Some usr\<rparr>)"

text \<open>The message the \<^verbatim>\<open>catch\<close> block computes (lines 59 to 73).\<close>

definition failure_message :: "thrown \<Rightarrow> string" where
  "failure_message error =
     (case error of
        NotAnError \<Rightarrow> ''Unknown error''
      | Error m \<Rightarrow>
          if String_includes m ''ECONNREFUSED'' then ''Connection refused - Server may be down''
          else if String_includes m ''ENOTFOUND'' then ''Host not found - Check the URL''
          else if String_includes m ''ETIMEDOUT'' then ''Connection timed out''
          else if String_includes m ''certificate'' then ''SSL certificate error''
          else m)"

definition request_for :: "Credentials \<Rightarrow> Request" where
  "request_for creds =
     \<lparr>endpoint = strip_trailing_slashes (url creds) @ ''/users/me'',
      http_method = ''GET'',
      headers = [(''Authorization'', ''Bearer '' @ token creds),
                 (''Content-Type'', ''application/json'')]\<rparr>"

text \<open>
  \<^verbatim>\<open>validateCredentials(name, credentials)\<close>. The network is the parameter \<open>fetch\<close>: what
  the call of \<^verbatim>\<open>fetch\<close> with a request settles to, a rejection or a response. Everything
  after the construction of the endpoint is inside the \<^verbatim>\<open>try\<close>, and the \<^verbatim>\<open>catch\<close> block
  throws nothing, so the function returns a result in every case.
\<close>

definition validateCredentials ::
  "(Request \<Rightarrow> thrown + Response) \<Rightarrow> string \<Rightarrow> Credentials \<Rightarrow> ValidationResult" where
  "validateCredentials fetch nm creds =
     (case (case fetch (request_for creds) of
              Inl e \<Rightarrow> Inl e
            | Inr response \<Rightarrow> on_response nm response) of
        Inr result \<Rightarrow> result
      | Inl error \<Rightarrow>
          \<lparr>name = nm, success = False, message = failure_message error, user = None\<rparr>)"

text \<open>
  \<^verbatim>\<open>Promise.all\<close> over promises that settle in the order \<open>order\<close> (the indices of the
  promises, in the order of their settling): a rejection rejects the aggregate at once, a
  fulfilment stores the value in the slot of its index, and the aggregate is fulfilled
  with the slots once every slot is filled.
\<close>

datatype 'a settled = Pending | Rejected thrown | Fulfilled 'a

fun Promise_all :: "nat list \<Rightarrow> (thrown + 'a) list \<Rightarrow> 'a option list \<Rightarrow> 'a list settled" where
  "Promise_all [] promises slots =
     (if list_all (\<lambda>s. s \<noteq> None) slots then Fulfilled (map the slots) else Pending)"
| "Promise_all (i # order) promises slots =
     (if i < length promises
      then (case promises ! i of
              Inl e \<Rightarrow> Rejected e
            | Inr v \<Rightarrow> Promise_all order promises (slots[i := Some v]))
      else Promise_all order promises slots)"

definition Object_entries :: "'a object \<Rightarrow> (string \<times> 'a) list" where
  "Object_entries obj = obj"

text \<open>
  \<^verbatim>\<open>validateAllCredentials(credentialsMap)\<close>; the promise of each entry is fulfilled with
  the result of \<open>validateCredentials\<close>.
\<close>

definition validateAllCredentials ::
  "(Request \<Rightarrow> thrown + Response) \<Rightarrow> nat list \<Rightarrow> Credentials object
     \<Rightarrow> ValidationResult list settled" where
  "validateAllCredentials fetch order credentialsMap =
     (let entries = Object_entries credentialsMap;
          promises = map (\<lambda>e. Inr (validateCredentials fetch (fst e) (snd e))) entries
      in Promise_all order promises (replicate (length promises) None))"


section \<open>Properties of the object operations\<close>

lemma map_of_None_keys: "(map_of obj k = None) = (k \<notin> set (Object_keys obj))"
  by (simp add: Object_keys_def map_of_eq_None_iff)

text \<open>
  \<^verbatim>\<open>obj[k]\<close> is truthy for the own keys of \<open>obj\<close> and for the keys of \<^verbatim>\<open>Object.prototype\<close>.
\<close>

lemma truthy_get:
  "truthy (get obj k) = (k \<in> set (Object_keys obj) \<or> k \<in> set Object_prototype)"
proof (cases "map_of obj k")
  case None
  then show ?thesis using map_of_None_keys[of obj k] by (simp add: get_def)
next
  case (Some v)
  then show ?thesis using map_of_None_keys[of obj k] by (simp add: get_def)
qed

lemma keys_insert_index:
  "set (Object_keys (insert_index n k v obj)) = insert k (set (Object_keys obj))"
  by (induction obj) (auto simp: Object_keys_def split: option.splits)

lemma length_insert_index: "length (insert_index n k v obj) = Suc (length obj)"
  by (induction obj) (auto split: option.splits)

lemma map_of_insert_index:
  "k \<notin> set (Object_keys obj) \<Longrightarrow>
   map_of (insert_index n k v obj) k' = (if k' = k then Some v else map_of obj k')"
  by (induction obj) (auto simp: Object_keys_def split: option.splits)

lemma map_of_overwrite_other:
  "k' \<noteq> k \<Longrightarrow> map_of (map (\<lambda>p. if fst p = k then (k, v) else p) obj) k' = map_of obj k'"
  by (induction obj) auto

lemma map_of_overwrite_same:
  "k \<in> set (Object_keys obj) \<Longrightarrow>
   map_of (map (\<lambda>p. if fst p = k then (k, v) else p) obj) k = Some v"
  by (induction obj) (auto simp: Object_keys_def)

lemma map_of_overwrite:
  "k \<in> set (Object_keys obj) \<Longrightarrow>
   map_of (map (\<lambda>p. if fst p = k then (k, v) else p) obj) k'
     = (if k' = k then Some v else map_of obj k')"
  by (simp add: map_of_overwrite_other map_of_overwrite_same)

lemma keys_overwrite:
  "Object_keys (map (\<lambda>p. if fst p = k then (k, v) else p) obj) = Object_keys obj"
  by (induction obj) (auto simp: Object_keys_def)

lemma map_of_append_new:
  "k \<notin> set (Object_keys obj) \<Longrightarrow>
   map_of (obj @ [(k, v)]) k' = (if k' = k then Some v else map_of obj k')"
  using map_of_None_keys[of obj k] by (simp add: map_add_def split: option.splits)

text \<open>
  An assignment binds the key to the value and leaves the other keys alone, unless the
  key is \<^verbatim>\<open>__proto__\<close> and not an own property: then it changes no property.
\<close>

lemma map_of_assign:
  assumes "k \<in> set (Object_keys obj) \<or> k \<noteq> ''__proto__''"
  shows "map_of (assign obj k v) k' = (if k' = k then Some v else map_of obj k')"
proof (cases "k \<in> set (Object_keys obj)")
  case True
  then show ?thesis using map_of_overwrite[OF True] by (simp add: assign_def Object_keys_def)
next
  case False
  with assms have "k \<noteq> ''__proto__''" by simp
  with False show ?thesis
    using map_of_insert_index[OF False] map_of_append_new[OF False]
    by (simp add: assign_def Object_keys_def del: map_of_append split: option.splits)
qed

lemma keys_assign:
  assumes "k \<in> set (Object_keys obj) \<or> k \<noteq> ''__proto__''"
  shows "set (Object_keys (assign obj k v)) = insert k (set (Object_keys obj))"
proof (cases "k \<in> set (Object_keys obj)")
  case True
  then show ?thesis using keys_overwrite[of k v obj] by (auto simp: assign_def Object_keys_def)
next
  case False
  with assms have "k \<noteq> ''__proto__''" by simp
  with False show ?thesis
    using keys_insert_index[of _ k v obj]
    by (auto simp: assign_def Object_keys_def split: option.splits)
qed

lemma assign_proto:
  "''__proto__'' \<notin> set (Object_keys obj) \<Longrightarrow> assign obj ''__proto__'' v = obj"
  by (simp add: assign_def Object_keys_def)

lemma length_assign:
  assumes "k \<noteq> ''__proto__''"
  shows "length (assign obj k v)
           = (if k \<in> set (Object_keys obj) then length obj else Suc (length obj))"
  using assms
  by (simp add: assign_def Object_keys_def length_insert_index split: option.splits)

lemma keys_delete: "set (Object_keys (delete obj k)) = set (Object_keys obj) - {k}"
  by (auto simp: delete_def Object_keys_def)

lemma map_of_delete: "map_of (delete obj k) k' = (if k' = k then None else map_of obj k')"
  by (induction obj) (auto simp: delete_def)

lemma delete_absent: "k \<notin> set (Object_keys obj) \<Longrightarrow> delete obj k = obj"
  by (induction obj) (auto simp: delete_def Object_keys_def)

text \<open>The two readings of decimal numerals agree.\<close>

lemma digit_of_char:
  fixes d :: nat
  assumes "d < 10"
  shows "(of_char (''0123456789'' ! d) :: nat) = 48 + d"
proof -
  from assms have "d = 0 \<or> d = 1 \<or> d = 2 \<or> d = 3 \<or> d = 4 \<or> d = 5 \<or> d = 6
    \<or> d = 7 \<or> d = 8 \<or> d = 9" by arith
  then show ?thesis by (elim disjE) simp_all
qed

lemma decimal_snoc: "decimal (s @ [c]) = 10 * decimal s + ((of_char c :: nat) - 48)"
  by (simp add: decimal_def)

lemma decimal_decimal_string: "decimal (decimal_string n) = n"
proof (induction n rule: decimal_string.induct)
  case (1 n)
  show ?case
  proof (cases "n < 10")
    case True
    then show ?thesis
      by (subst decimal_string.simps) (simp add: decimal_def digit_of_char)
  next
    case False
    with 1 have "decimal (decimal_string (n div 10)) = n div 10" by simp
    with False show ?thesis
      by (subst decimal_string.simps) (simp add: decimal_snoc digit_of_char)
  qed
qed


section \<open>Properties of the credential store\<close>

subsection \<open>addCredentials\<close>

lemma getDefaultConfig_valid: "active_valid getDefaultConfig"
  by (simp add: active_valid_def getDefaultConfig_def)

lemma addCredentials_credentials:
  "credentials (stored config (addCredentials nm creds config))
     = assign (credentials config) nm creds"
  by (simp add: addCredentials_def stored_def Let_def)

lemma addCredentials_active:
  "active (stored config (addCredentials nm creds config)) =
     (if length (Object_keys (assign (credentials config) nm creds)) = 1 then Some nm
      else active config)"
  by (simp add: addCredentials_def stored_def Let_def)

text \<open>
  For every name but a \<^verbatim>\<open>__proto__\<close> that is not yet an own key, \<open>addCredentials\<close> binds
  the name to the credentials and leaves every other entry as it was.
\<close>

lemma addCredentials_upsert:
  assumes "nm \<in> set (Object_keys (credentials config)) \<or> nm \<noteq> ''__proto__''"
  shows "get (credentials (stored config (addCredentials nm creds config))) k =
           (if k = nm then Own creds else get (credentials config) k)"
  using map_of_assign[OF assms, of creds k]
  by (simp add: addCredentials_credentials get_def)

lemma addCredentials_valid:
  assumes "nm \<in> set (Object_keys (credentials config)) \<or> nm \<noteq> ''__proto__''"
    and "active_valid config"
  shows "active_valid (stored config (addCredentials nm creds config))"
  using assms(2) keys_assign[OF assms(1), of creds]
  by (auto simp: active_valid_def addCredentials_credentials addCredentials_active
      split: option.splits)

text \<open>
  The first credential set added becomes active; adding a second one under a new name
  leaves \<open>active\<close> as it was.
\<close>

lemma addCredentials_first:
  assumes "credentials config = []" and "nm \<noteq> ''__proto__''"
  shows "active (stored config (addCredentials nm creds config)) = Some nm"
  using assms by (simp add: addCredentials_active Object_keys_def length_assign)

lemma addCredentials_second:
  assumes "length (credentials config) = 1" and "nm \<notin> set (Object_keys (credentials config))"
    and "nm \<noteq> ''__proto__''"
  shows "active (stored config (addCredentials nm creds config)) = active config"
  using assms by (simp add: addCredentials_active Object_keys_def length_assign)

text \<open>
  C4. After \<open>addCredentials(name, creds)\<close> the mapping is to contain \<open>name\<close> bound to
  \<open>creds\<close>. At the name \<^verbatim>\<open>__proto__\<close> the code stores nothing: the document written for
  the empty document is the empty document again, and \<^verbatim>\<open>__proto__\<close> is bound to no
  credentials in it.
\<close>

theorem addCredentials_proto_name:
  "addCredentials ''__proto__'' \<lparr>url = ''https://a.example'', token = ''t1''\<rparr>
       \<lparr>active = None, credentials = []\<rparr>
     = ((), Some \<lparr>active = None, credentials = []\<rparr>)
   \<and> get (credentials \<lparr>active = None, credentials = []\<rparr>) ''__proto__''
       \<noteq> Own \<lparr>url = ''https://a.example'', token = ''t1''\<rparr>"
  by (simp add: addCredentials_def assign_def get_def Object_prototype_def Object_keys_def)

subsection \<open>removeCredentials\<close>

text \<open>
  For a name \<^verbatim>\<open>Object.prototype\<close> does not define, \<open>removeCredentials\<close> does what is asked
  of it: nothing when the name is absent, and the removal, with a new active name among
  the remaining keys, when it is present.
\<close>

lemma removeCredentials_absent:
  assumes "nm \<notin> set (Object_keys (credentials config))" and "nm \<notin> set Object_prototype"
  shows "removeCredentials nm config = (False, None)"
  using assms by (simp add: removeCredentials_def truthy_get)

lemma removeCredentials_present:
  assumes "nm \<in> set (Object_keys (credentials config))"
  shows "removeCredentials nm config =
     (True, Some \<lparr>active =
                    (if active config = Some nm
                     then (case Object_keys (delete (credentials config) nm) of
                             [] \<Rightarrow> None | k # ks \<Rightarrow> Some k)
                     else active config),
                  credentials = delete (credentials config) nm\<rparr>)"
  using assms
  by (cases "Object_keys (delete (credentials config) nm)")
     (simp_all add: removeCredentials_def truthy_get Let_def Object_keys_def)

lemma removeCredentials_active_removed:
  assumes "nm \<in> set (Object_keys (credentials config))" and "active config = Some nm"
    and "removeCredentials nm config = (True, Some config')"
  shows "nm \<notin> set (Object_keys (credentials config'))
         \<and> (if Object_keys (credentials config') = [] then active config' = None
            else \<exists>k. active config' = Some k \<and> k \<in> set (Object_keys (credentials config')))"
proof -
  let ?rest = "delete (credentials config) nm"
  from assms(3) removeCredentials_present[OF assms(1)] assms(2)
  have c': "config' = \<lparr>active = (case Object_keys ?rest of [] \<Rightarrow> None | k # ks \<Rightarrow> Some k),
                        credentials = ?rest\<rparr>"
    by simp
  have "nm \<notin> set (Object_keys ?rest)" by (simp add: keys_delete)
  with c' show ?thesis by (cases "Object_keys ?rest") simp_all
qed

lemma removeCredentials_valid:
  assumes "active_valid config"
  shows "active_valid (stored config (removeCredentials nm config))"
proof (cases "truthy (get (credentials config) nm)")
  case False
  then show ?thesis using assms by (simp add: removeCredentials_def stored_def)
next
  case True
  show ?thesis
  proof (cases "active config = Some nm")
    case act: True
    show ?thesis
    proof (cases "Object_keys (delete (credentials config) nm)")
      case Nil
      with True act show ?thesis
        by (simp add: removeCredentials_def stored_def Let_def active_valid_def)
    next
      case (Cons k ks)
      with True act show ?thesis
        by (simp add: removeCredentials_def stored_def Let_def active_valid_def)
    qed
  next
    case nact: False
    with True assms show ?thesis
      by (auto simp: removeCredentials_def stored_def Let_def active_valid_def keys_delete
          split: option.splits)
  qed
qed

text \<open>
  C2. \<open>removeCredentials(name)\<close> is to return false and do nothing when \<open>name\<close> is
  absent. The name \<^verbatim>\<open>toString\<close> is absent from the empty document, and the code returns
  true and writes the document.
\<close>

theorem removeCredentials_inherited_name:
  "removeCredentials ''toString'' \<lparr>active = None, credentials = []\<rparr>
     = (True, Some \<lparr>active = None, credentials = []\<rparr>)
   \<and> ''toString'' \<notin> set (Object_keys (credentials \<lparr>active = None, credentials = []\<rparr>))"
  by (simp add: removeCredentials_def get_def Object_prototype_def delete_def Object_keys_def)

subsection \<open>setActive\<close>

lemma setActive_absent:
  assumes "nm \<notin> set (Object_keys (credentials config))" and "nm \<notin> set Object_prototype"
  shows "setActive nm config = (False, None)"
  using assms by (simp add: setActive_def truthy_get)

lemma setActive_present:
  assumes "nm \<in> set (Object_keys (credentials config))"
  shows "setActive nm config = (True, Some (config\<lparr>active := Some nm\<rparr>))"
  using assms by (simp add: setActive_def truthy_get)

lemma setActive_valid:
  assumes "nm \<in> set (Object_keys (credentials config)) \<or> nm \<notin> set Object_prototype"
    and "active_valid config"
  shows "active_valid (stored config (setActive nm config))"
proof (cases "nm \<in> set (Object_keys (credentials config))")
  case True
  then show ?thesis by (simp add: setActive_present stored_def active_valid_def)
next
  case False
  with assms(1) have "nm \<notin> set Object_prototype" by simp
  with False assms(2) show ?thesis by (simp add: setActive_absent stored_def)
qed

text \<open>
  C5. \<open>setActive(name)\<close> is to return false and leave the document unchanged when
  \<open>name\<close> is not a stored key. The name \<^verbatim>\<open>toString\<close> is not a key of the empty document,
  and the code returns true and writes a document whose \<open>active\<close> is \<^verbatim>\<open>toString\<close>.
\<close>

theorem setActive_inherited_name:
  "setActive ''toString'' \<lparr>active = None, credentials = []\<rparr>
     = (True, Some \<lparr>active = Some ''toString'', credentials = []\<rparr>)
   \<and> ''toString'' \<notin> set (Object_keys (credentials \<lparr>active = None, credentials = []\<rparr>))"
  by (simp add: setActive_def get_def Object_prototype_def Object_keys_def)

subsection \<open>getActiveCredentials\<close>

lemma getActiveCredentials_own:
  assumes "getActiveCredentials config = Some (nm, p)" and "nm \<notin> set Object_prototype"
  shows "active config = Some nm
         \<and> (\<exists>creds. p = Own creds \<and> map_of (credentials config) nm = Some creds)"
  using assms
  by (cases "active config")
     (auto simp: getActiveCredentials_def get_def split: if_splits option.splits)

lemma getActiveCredentials_dangling:
  assumes "active config = Some nm" and "nm \<notin> set (Object_keys (credentials config))"
    and "nm \<notin> set Object_prototype"
  shows "getActiveCredentials config = None"
  using assms by (simp add: getActiveCredentials_def truthy_get)

text \<open>
  C9. \<open>getActiveCredentials()\<close> is to return null when \<open>active\<close> names a key absent from
  the mapping, and a pair it returns is to hold a key of the mapping with that key's
  value. In the document whose \<open>active\<close> is \<^verbatim>\<open>toString\<close> and whose mapping is empty, the
  code returns the pair of \<^verbatim>\<open>toString\<close> and the function inherited under that name.
\<close>

theorem getActiveCredentials_inherited_name:
  "getActiveCredentials \<lparr>active = Some ''toString'', credentials = []\<rparr>
     = Some (''toString'', Inherited ''toString'')
   \<and> ''toString''
       \<notin> set (Object_keys (credentials \<lparr>active = Some ''toString'', credentials = []\<rparr>))"
  by (simp add: getActiveCredentials_def get_def Object_prototype_def Object_keys_def)

subsection \<open>The invariant along a run of calls\<close>

lemma perform_valid:
  assumes "plain_call c" and "active_valid config"
  shows "active_valid (perform c config)"
proof (cases c)
  case (Add nm creds)
  with assms show ?thesis using addCredentials_valid[of nm config creds] by simp
next
  case (Remove nm)
  with assms show ?thesis using removeCredentials_valid[of config nm] by simp
next
  case (SetActive nm)
  with assms show ?thesis using setActive_valid[of nm config] by simp
qed

text \<open>
  Along a run of calls whose names do not meet \<^verbatim>\<open>Object.prototype\<close>, every document
  observed has a valid \<open>active\<close>.
\<close>

lemma observed_valid:
  "list_all plain_call cs \<Longrightarrow> active_valid config \<Longrightarrow>
   list_all active_valid (observed config cs)"
  by (induction cs arbitrary: config) (simp_all add: perform_valid)

text \<open>
  C1. Starting from the empty document, after every call of \<open>addCredentials\<close>,
  \<open>removeCredentials\<close> and \<open>setActive\<close> the \<open>active\<close> of the document is to be null or a
  key of the mapping. After adding \<^verbatim>\<open>a\<close> and then \<^verbatim>\<open>__proto__\<close>, the document holds the one
  key \<^verbatim>\<open>a\<close> and its \<open>active\<close> is \<^verbatim>\<open>__proto__\<close>; after \<open>setActive\<close> of \<^verbatim>\<open>toString\<close> on the
  empty document, \<open>active\<close> is \<^verbatim>\<open>toString\<close> and the mapping is empty.
\<close>

theorem active_dangling_after_calls:
  "observed getDefaultConfig
     [Add ''a'' \<lparr>url = ''https://a.example'', token = ''t1''\<rparr>,
      Add ''__proto__'' \<lparr>url = ''https://b.example'', token = ''t2''\<rparr>]
   = [\<lparr>active = Some ''a'',
        credentials = [(''a'', \<lparr>url = ''https://a.example'', token = ''t1''\<rparr>)]\<rparr>,
      \<lparr>active = Some ''__proto__'',
        credentials = [(''a'', \<lparr>url = ''https://a.example'', token = ''t1''\<rparr>)]\<rparr>]
   \<and> \<not> active_valid
        \<lparr>active = Some ''__proto__'',
         credentials = [(''a'', \<lparr>url = ''https://a.example'', token = ''t1''\<rparr>)]\<rparr>
   \<and> observed getDefaultConfig [SetActive ''toString'']
       = [\<lparr>active = Some ''toString'', credentials = []\<rparr>]
   \<and> \<not> active_valid \<lparr>active = Some ''toString'', credentials = []\<rparr>"
  by (simp add: getDefaultConfig_def addCredentials_def setActive_def stored_def assign_def
      Object_keys_def active_valid_def array_index_def get_def Object_prototype_def)

subsection \<open>readConfig\<close>

lemma expected_structure_Config_value: "expected_structure (Config_value config)"
  by (cases "active config")
     (simp_all add: expected_structure_def Config_value_def lookup_def is_string_def list_all_iff
        expected_Credentials_def Credentials_value_def)

lemma readConfig_Config_value:
  "readConfig (DirPresent (Parsed (Config_value config)))
     = Inr (Config_value config, DirPresent (Parsed (Config_value config)))"
  by (simp add: readConfig_def ensureConfigDir_def)

text \<open>
  C3 (amended). When the configuration directory exists or can be created,
  \<open>readConfig()\<close> does not raise: it returns the default empty document when the file is
  absent, cannot be read or is not valid JSON, and otherwise the value the content
  parses to, whatever its structure.
\<close>

theorem readConfig_result:
  assumes "fs \<noteq> DirMissing False"
  shows "readConfig fs =
           Inr (case fs of DirPresent (Parsed v) \<Rightarrow> v | _ \<Rightarrow> Config_value getDefaultConfig,
                case fs of DirPresent f \<Rightarrow> DirPresent f | DirMissing c \<Rightarrow> DirPresent Absent)"
  using assms
  by (cases fs) (auto simp: readConfig_def ensureConfigDir_def split: config_file.splits)

theorem readConfig_result_witness:
  "DirPresent Malformed \<noteq> DirMissing False
   \<and> readConfig (DirPresent Malformed)
       = Inr (JObj [(''active'', JNull), (''credentials'', JObj [])], DirPresent Malformed)"
proof -
  have h: "DirPresent Malformed \<noteq> DirMissing False" by simp
  from readConfig_result[OF h] show ?thesis
    by (simp add: Config_value_def getDefaultConfig_def)
qed

text \<open>
  C3 as stated fails: a file holding \<^verbatim>\<open>{}\<close> is valid JSON without the expected structure,
  and \<open>readConfig()\<close> returns \<^verbatim>\<open>{}\<close>, not the default document; and when the directory is
  missing and cannot be created, \<open>readConfig()\<close> raises.
\<close>

theorem readConfig_unexpected_structure:
  "readConfig (DirPresent (Parsed (JObj []))) = Inr (JObj [], DirPresent (Parsed (JObj [])))
   \<and> \<not> expected_structure (JObj [])
   \<and> JObj [] \<noteq> Config_value getDefaultConfig
   \<and> readConfig (DirMissing False) = Inl MkdirError"
  by (simp add: readConfig_def ensureConfigDir_def expected_structure_def lookup_def
      Config_value_def is_string_def)


section \<open>Properties of the validator\<close>

subsection \<open>Substrings and messages\<close>

lemma String_includes_iff: "String_includes s p = (\<exists>a b. s = a @ p @ b)"
proof (induction s)
  case Nil
  then show ?case by auto
next
  case (Cons c s)
  show ?case
  proof
    assume "String_includes (c # s) p"
    then consider "prefix p (c # s)" | "String_includes s p" by auto
    then show "\<exists>a b. c # s = a @ p @ b"
    proof cases
      case 1
      then obtain b where "c # s = p @ b" by (auto simp: prefix_def)
      then have "c # s = [] @ p @ b" by simp
      then show ?thesis by blast
    next
      case 2
      with Cons.IH obtain a b where "s = a @ p @ b" by blast
      then have "c # s = (c # a) @ p @ b" by simp
      then show ?thesis by blast
    qed
  next
    assume "\<exists>a b. c # s = a @ p @ b"
    then obtain a b where ab: "c # s = a @ p @ b" by blast
    show "String_includes (c # s) p"
    proof (cases a)
      case Nil
      with ab have "prefix p (c # s)" by (simp add: prefix_def)
      then show ?thesis by simp
    next
      case (Cons x a')
      with ab have "s = a' @ p @ b" by simp
      with Cons.IH have "String_includes s p" by blast
      then show ?thesis by simp
    qed
  qed
qed

text \<open>\<^verbatim>\<open>s.includes(p)\<close> holds exactly when \<open>p\<close> is a contiguous sublist of \<open>s\<close>.\<close>

lemma String_includes_sublist: "String_includes s p = sublist p s"
  by (simp add: String_includes_iff sublist_def)

lemma failure_message_Error:
  "failure_message (Error msg) =
     (if sublist ''ECONNREFUSED'' msg then ''Connection refused - Server may be down''
      else if sublist ''ENOTFOUND'' msg then ''Host not found - Check the URL''
      else if sublist ''ETIMEDOUT'' msg then ''Connection timed out''
      else if sublist ''certificate'' msg then ''SSL certificate error''
      else msg)"
  by (simp add: failure_message_def String_includes_sublist)

lemma failure_message_cannot_read:
  "failure_message (Error (cannot_read ''undefined'' ''id'')) = cannot_read ''undefined'' ''id''"
  "failure_message (Error (cannot_read ''null'' ''id'')) = cannot_read ''null'' ''id''"
  "failure_message (Error (cannot_read ''undefined'' ''data''))
     = cannot_read ''undefined'' ''data''"
  "failure_message (Error (cannot_read ''null'' ''data'')) = cannot_read ''null'' ''data''"
  by (simp_all add: failure_message_def cannot_read_def)

lemma lookup_nonobject: "lookup JUndefined k = JUndefined" "lookup JNull k = JUndefined"
  by (simp_all add: lookup_def)

lemma lookup_primitive:
  "lookup (JBool b) k = JUndefined" "lookup (JNum n) k = JUndefined"
  "lookup (JStr s) k = JUndefined" "lookup (JArr vs) k = JUndefined"
  by (simp_all add: lookup_def)

subsection \<open>The paths of validateCredentials\<close>

lemma validateCredentials_rejected:
  "fetch (request_for creds) = Inl e \<Longrightarrow>
   validateCredentials fetch nm creds =
     \<lparr>name = nm, success = False, message = failure_message e, user = None\<rparr>"
  by (simp add: validateCredentials_def)

lemma validateCredentials_responded:
  "fetch (request_for creds) = Inr response \<Longrightarrow>
   validateCredentials fetch nm creds =
     (case on_response nm response of
        Inr result \<Rightarrow> result
      | Inl e \<Rightarrow> \<lparr>name = nm, success = False, message = failure_message e, user = None\<rparr>)"
  by (simp add: validateCredentials_def)

lemma on_response_not_ok:
  "\<not> ok response \<Longrightarrow>
   on_response nm response =
     Inr \<lparr>name = nm, success = False, message = status_message (status response),
          user = None\<rparr>"
  by (simp add: on_response_def)

lemma read_user_value:
  "u \<noteq> JUndefined \<Longrightarrow> u \<noteq> JNull \<Longrightarrow>
   read_user u = Inr \<lparr>id' = lookup u ''id'', email = lookup u ''email'',
                       first_name = lookup u ''first_name'',
                       last_name = lookup u ''last_name''\<rparr>"
  by (simp add: read_user_def get_property_def)

lemma read_user_undefined:
  "read_user JUndefined = Inl (Error (cannot_read ''undefined'' ''id''))"
  by (simp add: read_user_def get_property_def)

lemma read_user_null: "read_user JNull = Inl (Error (cannot_read ''null'' ''id''))"
  by (simp add: read_user_def get_property_def)

lemma on_response_ok_body:
  assumes "ok response" and "json response = Inr body"
    and "body \<noteq> JUndefined" and "body \<noteq> JNull"
  shows "on_response nm response =
     (case read_user (lookup body ''data'') of
        Inl e \<Rightarrow> Inl e
      | Inr usr \<Rightarrow> Inr \<lparr>name = nm, success = True, message = ''Valid'', user = Some usr\<rparr>)"
  using assms by (simp add: on_response_def get_property_def)

text \<open>
  Whatever the network does, the result carries the name given, a successful result has
  the message \<^verbatim>\<open>Valid\<close> and a user, and a failed one has no user.
\<close>

lemma validateCredentials_name: "name (validateCredentials fetch nm creds) = nm"
  by (auto simp: validateCredentials_def on_response_def split: sum.splits)

lemma validateCredentials_shape:
  "(success (validateCredentials fetch nm creds)
      \<and> message (validateCredentials fetch nm creds) = ''Valid''
      \<and> user (validateCredentials fetch nm creds) \<noteq> None)
   \<or> (\<not> success (validateCredentials fetch nm creds)
      \<and> user (validateCredentials fetch nm creds) = None)"
  by (auto simp: validateCredentials_def on_response_def split: sum.splits)

subsection \<open>Results by status\<close>

text \<open>
  C6 (amended). For every response, \<open>validateCredentials\<close> returns a result determined
  as follows. A status outside 200 to 299 gives \<open>success = false\<close> with the message
  \<^verbatim>\<open>Unauthorized - Invalid or expired token\<close> for 401,
  \<^verbatim>\<open>Forbidden - Token lacks required permissions\<close> for 403,
  \<^verbatim>\<open>Not found - Check if the URL is correct\<close> for 404 and \<^verbatim>\<open>HTTP <code>\<close> for any other
  code. A status from 200 to 299 gives \<open>success = true\<close>, the message \<^verbatim>\<open>Valid\<close> and the
  identity read from the \<^verbatim>\<open>data\<close> field of the body, provided the body parses as JSON and
  its \<^verbatim>\<open>data\<close> field is neither missing nor null.
\<close>

theorem validateCredentials_by_status:
  assumes "fetch (request_for creds) = Inr response"
  shows "(\<not> ok response \<longrightarrow>
            validateCredentials fetch nm creds =
              \<lparr>name = nm, success = False,
               message =
                 (if status response = 401 then ''Unauthorized - Invalid or expired token''
                  else if status response = 403
                    then ''Forbidden - Token lacks required permissions''
                  else if status response = 404 then ''Not found - Check if the URL is correct''
                  else ''HTTP '' @ decimal_string (status response)),
               user = None\<rparr>)
       \<and> (ok response \<longrightarrow> json response = Inr body \<longrightarrow>
            lookup body ''data'' \<noteq> JUndefined \<longrightarrow> lookup body ''data'' \<noteq> JNull \<longrightarrow>
            validateCredentials fetch nm creds =
              \<lparr>name = nm, success = True, message = ''Valid'',
               user = Some \<lparr>id' = lookup (lookup body ''data'') ''id'',
                            email = lookup (lookup body ''data'') ''email'',
                            first_name = lookup (lookup body ''data'') ''first_name'',
                            last_name = lookup (lookup body ''data'') ''last_name''\<rparr>\<rparr>)"
proof (intro conjI impI)
  note r = validateCredentials_responded[of fetch creds response nm, OF assms]
  assume "\<not> ok response"
  then show "validateCredentials fetch nm creds =
              \<lparr>name = nm, success = False,
               message =
                 (if status response = 401 then ''Unauthorized - Invalid or expired token''
                  else if status response = 403
                    then ''Forbidden - Token lacks required permissions''
                  else if status response = 404 then ''Not found - Check if the URL is correct''
                  else ''HTTP '' @ decimal_string (status response)),
               user = None\<rparr>"
    by (simp add: r on_response_not_ok status_message_def)
next
  assume ok: "ok response" and body: "json response = Inr body"
    and u: "lookup body ''data'' \<noteq> JUndefined" "lookup body ''data'' \<noteq> JNull"
  from u(1) have nz: "body \<noteq> JUndefined" "body \<noteq> JNull"
    by (auto simp: lookup_nonobject)
  show "validateCredentials fetch nm creds =
              \<lparr>name = nm, success = True, message = ''Valid'',
               user = Some \<lparr>id' = lookup (lookup body ''data'') ''id'',
                            email = lookup (lookup body ''data'') ''email'',
                            first_name = lookup (lookup body ''data'') ''first_name'',
                            last_name = lookup (lookup body ''data'') ''last_name''\<rparr>\<rparr>"
    by (simp add: validateCredentials_responded[of fetch creds response nm, OF assms]
        on_response_ok_body[OF ok body nz] read_user_value[OF u])
qed

theorem validateCredentials_by_status_witness:
  "validateCredentials
     (\<lambda>r. Inr \<lparr>status = 200,
                json = Inr (JObj [(''data'', JObj [(''id'', JStr ''1''),
                                                    (''email'', JStr ''a@b.com'')])])\<rparr>)
     ''production'' \<lparr>url = ''https://directus.example.com'', token = ''t1''\<rparr>
   = \<lparr>name = ''production'', success = True, message = ''Valid'',
      user = Some \<lparr>id' = JStr ''1'', email = JStr ''a@b.com'', first_name = JUndefined,
                   last_name = JUndefined\<rparr>\<rparr>
   \<and> validateCredentials (\<lambda>r. Inr \<lparr>status = 401, json = Inr JNull\<rparr>)
       ''production'' \<lparr>url = ''https://directus.example.com'', token = ''t1''\<rparr>
     = \<lparr>name = ''production'', success = False,
        message = ''Unauthorized - Invalid or expired token'', user = None\<rparr>
   \<and> validateCredentials (\<lambda>r. Inr \<lparr>status = 500, json = Inr JNull\<rparr>)
       ''production'' \<lparr>url = ''https://directus.example.com'', token = ''t1''\<rparr>
     = \<lparr>name = ''production'', success = False, message = ''HTTP 500'', user = None\<rparr>"
proof -
  let ?c = "\<lparr>url = ''https://directus.example.com'', token = ''t1''\<rparr>"
  let ?body = "JObj [(''data'', JObj [(''id'', JStr ''1''), (''email'', JStr ''a@b.com'')])]"
  let ?r200 = "\<lparr>status = 200, json = Inr ?body\<rparr>"
  let ?r401 = "\<lparr>status = 401, json = Inr JNull\<rparr>"
  let ?r500 = "\<lparr>status = 500, json = Inr JNull\<rparr>"
  have a: "validateCredentials (\<lambda>r. Inr ?r200) ''production'' ?c
      = \<lparr>name = ''production'', success = True, message = ''Valid'',
      user = Some \<lparr>id' = JStr ''1'', email = JStr ''a@b.com'', first_name = JUndefined,
                   last_name = JUndefined\<rparr>\<rparr>"
    using validateCredentials_by_status[where fetch = "\<lambda>r. Inr ?r200" and creds = ?c
        and response = ?r200 and body = ?body and nm = "''production''"]
    by (simp add: ok_def lookup_def)
  have b: "validateCredentials (\<lambda>r. Inr ?r401) ''production'' ?c
      = \<lparr>name = ''production'', success = False,
        message = ''Unauthorized - Invalid or expired token'', user = None\<rparr>"
    using validateCredentials_by_status[where fetch = "\<lambda>r. Inr ?r401" and creds = ?c
        and response = ?r401 and body = JNull and nm = "''production''"]
    by (simp add: ok_def)
  have c: "validateCredentials (\<lambda>r. Inr ?r500) ''production'' ?c
      = \<lparr>name = ''production'', success = False, message = ''HTTP 500'', user = None\<rparr>"
    using validateCredentials_by_status[where fetch = "\<lambda>r. Inr ?r500" and creds = ?c
        and response = ?r500 and body = JNull and nm = "''production''"]
    by (simp add: ok_def decimal_string.simps)
  from a b c show ?thesis by simp
qed

text \<open>
  C6 as stated fails: the status 200 with the body \<^verbatim>\<open>{}\<close> is a success status, and the
  result has \<open>success = false\<close>.
\<close>

theorem validateCredentials_success_status_failure:
  "ok \<lparr>status = 200, json = Inr (JObj [])\<rparr>
   \<and> validateCredentials (\<lambda>r. Inr \<lparr>status = 200, json = Inr (JObj [])\<rparr>)
       ''production'' \<lparr>url = ''https://directus.example.com'', token = ''t1''\<rparr>
     = \<lparr>name = ''production'', success = False,
        message = ''Cannot read properties of undefined (reading '' @ [CHR 0x27] @ ''id''
                  @ [CHR 0x27] @ '')'',
        user = None\<rparr>"
  by (simp add: ok_def validateCredentials_def on_response_def get_property_def lookup_def
      read_user_def failure_message_def cannot_read_def)

subsection \<open>Network failures\<close>

text \<open>
  A rejection of \<^verbatim>\<open>fetch\<close> with an error never propagates: the result has
  \<open>success = false\<close>, and its message is chosen from the error's message by the chain of
  the handler, the first pattern found deciding.
\<close>

lemma validateCredentials_rejected_Error:
  assumes "fetch (request_for creds) = Inl (Error msg)"
  shows "validateCredentials fetch nm creds =
           \<lparr>name = nm, success = False,
            message =
              (if sublist ''ECONNREFUSED'' msg then ''Connection refused - Server may be down''
               else if sublist ''ENOTFOUND'' msg then ''Host not found - Check the URL''
               else if sublist ''ETIMEDOUT'' msg then ''Connection timed out''
               else if sublist ''certificate'' msg then ''SSL certificate error''
               else msg),
            user = None\<rparr>"
  by (simp only: validateCredentials_rejected[of fetch creds "Error msg" nm, OF assms]
      failure_message_Error)


subsection \<open>Malformed bodies\<close>

text \<open>
  C10 (amended). \<open>validateCredentials\<close> returns a result for every response and body.
  For a success status: when the body is not valid JSON the result has
  \<open>success = false\<close> and no user, and its message is the error's message if that contains
  none of the four patterns of the handler; when the parsed body is null, or its \<^verbatim>\<open>data\<close>
  field is missing or null, the result has \<open>success = false\<close> and the message of the
  \<^verbatim>\<open>TypeError\<close>; when the \<^verbatim>\<open>data\<close> field is present, not null and not an object (a boolean,
  a number, a string, an array), no error arises and the result has \<open>success = true\<close>
  with every field of the identity undefined.
\<close>

theorem validateCredentials_malformed_body:
  assumes "fetch (request_for creds) = Inr response" and "ok response"
  shows "(json response = Inl e \<longrightarrow>
            \<not> success (validateCredentials fetch nm creds)
            \<and> user (validateCredentials fetch nm creds) = None)
       \<and> (json response = Inl (Error msg) \<longrightarrow>
            \<not> sublist ''ECONNREFUSED'' msg \<longrightarrow> \<not> sublist ''ENOTFOUND'' msg \<longrightarrow>
            \<not> sublist ''ETIMEDOUT'' msg \<longrightarrow> \<not> sublist ''certificate'' msg \<longrightarrow>
            validateCredentials fetch nm creds =
              \<lparr>name = nm, success = False, message = msg, user = None\<rparr>)
       \<and> (json response = Inr JNull \<longrightarrow>
            validateCredentials fetch nm creds =
              \<lparr>name = nm, success = False, message = cannot_read ''null'' ''data'',
               user = None\<rparr>)
       \<and> (json response = Inr body \<longrightarrow> body \<noteq> JNull \<longrightarrow> body \<noteq> JUndefined \<longrightarrow>
            lookup body ''data'' = JUndefined \<longrightarrow>
            validateCredentials fetch nm creds =
              \<lparr>name = nm, success = False, message = cannot_read ''undefined'' ''id'',
               user = None\<rparr>)
       \<and> (json response = Inr body \<longrightarrow> lookup body ''data'' = JNull \<longrightarrow>
            validateCredentials fetch nm creds =
              \<lparr>name = nm, success = False, message = cannot_read ''null'' ''id'',
               user = None\<rparr>)
       \<and> (json response = Inr body \<longrightarrow> lookup body ''data'' \<noteq> JUndefined \<longrightarrow>
            lookup body ''data'' \<noteq> JNull \<longrightarrow> (\<forall>ps. lookup body ''data'' \<noteq> JObj ps) \<longrightarrow>
            validateCredentials fetch nm creds =
              \<lparr>name = nm, success = True, message = ''Valid'',
               user = Some \<lparr>id' = JUndefined, email = JUndefined, first_name = JUndefined,
                            last_name = JUndefined\<rparr>\<rparr>)"
proof (intro conjI impI)
  note r = validateCredentials_responded[of fetch creds response nm, OF assms(1)]
  {
    assume "json response = Inl e"
    with assms(2) have "validateCredentials fetch nm creds =
        \<lparr>name = nm, success = False, message = failure_message e, user = None\<rparr>"
      by (simp add: r on_response_def)
    then show "\<not> success (validateCredentials fetch nm creds)"
      and "user (validateCredentials fetch nm creds) = None"
      by simp_all
  }
  {
    assume "json response = Inl (Error msg)" and "\<not> sublist ''ECONNREFUSED'' msg"
      and "\<not> sublist ''ENOTFOUND'' msg" and "\<not> sublist ''ETIMEDOUT'' msg"
      and "\<not> sublist ''certificate'' msg"
    with assms(2) show "validateCredentials fetch nm creds =
        \<lparr>name = nm, success = False, message = msg, user = None\<rparr>"
      by (simp add: r on_response_def failure_message_Error)
  }
  {
    assume "json response = Inr JNull"
    with assms(2) show "validateCredentials fetch nm creds =
        \<lparr>name = nm, success = False, message = cannot_read ''null'' ''data'', user = None\<rparr>"
      by (simp add: r on_response_def get_property_def failure_message_cannot_read)
  }
  {
    assume body: "json response = Inr body" and nz: "body \<noteq> JNull" "body \<noteq> JUndefined"
      and u: "lookup body ''data'' = JUndefined"
    show "validateCredentials fetch nm creds =
        \<lparr>name = nm, success = False, message = cannot_read ''undefined'' ''id'', user = None\<rparr>"
      by (simp add: r on_response_ok_body[OF assms(2) body nz(2) nz(1)] u read_user_undefined
          failure_message_cannot_read)
  }
  {
    assume body: "json response = Inr body" and u: "lookup body ''data'' = JNull"
    from u have nz: "body \<noteq> JUndefined" "body \<noteq> JNull" by (auto simp: lookup_nonobject)
    show "validateCredentials fetch nm creds =
        \<lparr>name = nm, success = False, message = cannot_read ''null'' ''id'', user = None\<rparr>"
      by (simp add: r on_response_ok_body[OF assms(2) body nz] u read_user_null
          failure_message_cannot_read)
  }
  {
    assume body: "json response = Inr body"
      and v: "lookup body ''data'' \<noteq> JUndefined" "lookup body ''data'' \<noteq> JNull"
      and u: "\<forall>ps. lookup body ''data'' \<noteq> JObj ps"
    from v(1) have nz: "body \<noteq> JUndefined" "body \<noteq> JNull"
      by (auto simp: lookup_nonobject)
    from u have "lookup (lookup body ''data'') k = JUndefined" for k
      by (cases "lookup body ''data''") (simp_all add: lookup_nonobject lookup_primitive)
    then show "validateCredentials fetch nm creds =
        \<lparr>name = nm, success = True, message = ''Valid'',
         user = Some \<lparr>id' = JUndefined, email = JUndefined, first_name = JUndefined,
                      last_name = JUndefined\<rparr>\<rparr>"
      by (simp add: r on_response_ok_body[OF assms(2) body nz] read_user_value[OF v])
  }
qed

theorem validateCredentials_malformed_body_witness:
  "validateCredentials
       (\<lambda>r. Inr \<lparr>status = 200,
                  json = Inl (Error ''Unexpected token < in JSON at position 0'')\<rparr>)
       ''production'' \<lparr>url = ''https://directus.example.com'', token = ''t1''\<rparr>
     = \<lparr>name = ''production'', success = False,
        message = ''Unexpected token < in JSON at position 0'', user = None\<rparr>
   \<and> validateCredentials
       (\<lambda>r. Inr \<lparr>status = 200, json = Inr (JObj [(''errors'', JArr [])])\<rparr>)
       ''production'' \<lparr>url = ''https://directus.example.com'', token = ''t1''\<rparr>
     = \<lparr>name = ''production'', success = False,
        message = cannot_read ''undefined'' ''id'', user = None\<rparr>"
proof -
  let ?c = "\<lparr>url = ''https://directus.example.com'', token = ''t1''\<rparr>"
  let ?m = "''Unexpected token < in JSON at position 0''"
  let ?r1 = "\<lparr>status = 200, json = Inl (Error ?m)\<rparr>"
  let ?b2 = "JObj [(''errors'', JArr [])]"
  let ?r2 = "\<lparr>status = 200, json = Inr ?b2\<rparr>"
  have a: "validateCredentials (\<lambda>r. Inr ?r1) ''production'' ?c
     = \<lparr>name = ''production'', success = False, message = ?m, user = None\<rparr>"
    using validateCredentials_malformed_body[where fetch = "\<lambda>r. Inr ?r1" and creds = ?c
        and response = ?r1 and msg = ?m and nm = "''production''"]
    by (simp add: ok_def sublist_code)
  have b: "validateCredentials (\<lambda>r. Inr ?r2) ''production'' ?c
     = \<lparr>name = ''production'', success = False,
        message = cannot_read ''undefined'' ''id'', user = None\<rparr>"
    using validateCredentials_malformed_body[where fetch = "\<lambda>r. Inr ?r2" and creds = ?c
        and response = ?r2 and body = ?b2 and nm = "''production''"]
    by (simp add: ok_def lookup_def)
  from a b show ?thesis by simp
qed

text \<open>
  C10 as stated fails: the body \<^verbatim>\<open>{"data": false}\<close> of a success-status response has no
  nested data object, no error arises, and the result has \<open>success = true\<close>.
\<close>

theorem validateCredentials_primitive_data:
  "ok \<lparr>status = 200, json = Inr (JObj [(''data'', JBool False)])\<rparr>
   \<and> validateCredentials
       (\<lambda>r. Inr \<lparr>status = 200, json = Inr (JObj [(''data'', JBool False)])\<rparr>)
       ''production'' \<lparr>url = ''https://directus.example.com'', token = ''t1''\<rparr>
     = \<lparr>name = ''production'', success = True, message = ''Valid'',
        user = Some \<lparr>id' = JUndefined, email = JUndefined, first_name = JUndefined,
                     last_name = JUndefined\<rparr>\<rparr>"
  by (simp add: ok_def validateCredentials_def on_response_def get_property_def lookup_def
      read_user_def)

subsection \<open>validateAllCredentials\<close>

lemma Promise_all_fulfilled:
  assumes "length slots = length vs"
    and "\<And>i. i < length vs \<Longrightarrow>
           slots ! i = Some (vs ! i) \<or> (slots ! i = None \<and> i \<in> set order)"
  shows "Promise_all order (map Inr vs) slots = Fulfilled vs"
  using assms
proof (induction order arbitrary: slots)
  case Nil
  then have all: "\<And>i. i < length vs \<Longrightarrow> slots ! i = Some (vs ! i)" by auto
  with Nil.prems(1) have "list_all (\<lambda>s. s \<noteq> None) slots"
    by (simp add: list_all_length)
  moreover from all Nil.prems(1) have "map the slots = vs"
    by (intro nth_equalityI) simp_all
  ultimately show ?case by simp
next
  case (Cons j order)
  show ?case
  proof (cases "j < length vs")
    case True
    have "Promise_all order (map Inr vs) (slots[j := Some (vs ! j)]) = Fulfilled vs"
    proof (rule Cons.IH)
      show "length (slots[j := Some (vs ! j)]) = length vs" using Cons.prems(1) by simp
    next
      fix i assume i: "i < length vs"
      show "slots[j := Some (vs ! j)] ! i = Some (vs ! i)
            \<or> (slots[j := Some (vs ! j)] ! i = None \<and> i \<in> set order)"
      proof (cases "i = j")
        case True
        with i Cons.prems(1) show ?thesis by simp
      next
        case False
        with Cons.prems(2)[OF i] show ?thesis by auto
      qed
    qed
    with True show ?thesis by simp
  next
    case False
    have "Promise_all order (map Inr vs) slots = Fulfilled vs"
    proof (rule Cons.IH)
      show "length slots = length vs" by (rule Cons.prems(1))
    next
      fix i assume i: "i < length vs"
      with False have "i \<noteq> j" by auto
      with Cons.prems(2)[OF i]
      show "slots ! i = Some (vs ! i) \<or> (slots ! i = None \<and> i \<in> set order)"
        by auto
    qed
    with False show ?thesis by simp
  qed
qed

text \<open>
  C8. For every input mapping, and whatever the order in which the requests settle,
  \<open>validateAllCredentials\<close> is fulfilled (it neither rejects nor stays pending once
  every request has settled) with exactly one result per entry, the results in the order
  of the entries and each carrying the name of its entry.
\<close>

theorem validateAllCredentials_ordered:
  assumes "{0..<length credentialsMap} \<subseteq> set order"
  shows "validateAllCredentials fetch order credentialsMap
           = Fulfilled (map (\<lambda>e. validateCredentials fetch (fst e) (snd e)) credentialsMap)
         \<and> length (map (\<lambda>e. validateCredentials fetch (fst e) (snd e)) credentialsMap)
           = length (Object_entries credentialsMap)
         \<and> map name (map (\<lambda>e. validateCredentials fetch (fst e) (snd e)) credentialsMap)
           = Object_keys credentialsMap"
proof -
  let ?vs = "map (\<lambda>e. validateCredentials fetch (fst e) (snd e)) credentialsMap"
  have "Promise_all order (map Inr ?vs) (replicate (length ?vs) None) = Fulfilled ?vs"
  proof (rule Promise_all_fulfilled)
    show "length (replicate (length ?vs) None) = length ?vs" by simp
  next
    fix i assume "i < length ?vs"
    with assms show "replicate (length ?vs) None ! i = Some (?vs ! i)
        \<or> (replicate (length ?vs) None ! i = None \<and> i \<in> set order)"
      by auto
  qed
  then have "validateAllCredentials fetch order credentialsMap = Fulfilled ?vs"
    by (simp add: validateAllCredentials_def Object_entries_def Let_def comp_def)
  moreover have "map name ?vs = Object_keys credentialsMap"
    by (simp add: Object_keys_def validateCredentials_name comp_def)
  ultimately show ?thesis by (simp add: Object_entries_def)
qed

theorem validateAllCredentials_ordered_witness:
  "{0..<length [(''a'', \<lparr>url = ''https://a.example'', token = ''t1''\<rparr>),
                (''b'', \<lparr>url = ''https://b.example'', token = ''t2''\<rparr>)]} \<subseteq> set [1, 0]
   \<and> validateAllCredentials
        (\<lambda>r. if endpoint r = ''https://a.example/users/me''
              then Inr \<lparr>status = 401, json = Inr JNull\<rparr>
              else Inl (Error ''fetch failed''))
        [1, 0]
        [(''a'', \<lparr>url = ''https://a.example'', token = ''t1''\<rparr>),
         (''b'', \<lparr>url = ''https://b.example'', token = ''t2''\<rparr>)]
     = Fulfilled
        [\<lparr>name = ''a'', success = False,
          message = ''Unauthorized - Invalid or expired token'', user = None\<rparr>,
         \<lparr>name = ''b'', success = False, message = ''fetch failed'', user = None\<rparr>]"
proof -
  let ?m = "[(''a'', \<lparr>url = ''https://a.example'', token = ''t1''\<rparr>),
             (''b'', \<lparr>url = ''https://b.example'', token = ''t2''\<rparr>)]"
  have h: "{0..<length ?m} \<subseteq> set [1, 0]" by auto
  from validateAllCredentials_ordered[OF h] h show ?thesis
    by (simp add: validateCredentials_def request_for_def strip_trailing_slashes_def
        on_response_def ok_def status_message_def failure_message_def)
qed

end
